theory Spec2Isabelle
  imports Complex_Main "HOL-Library.Sublist"
begin

section \<open>The Empathetic Code Reviewer (\<^verbatim>\<open>empathetic_reviewer.py\<close>)\<close>

text \<open>
  The program classifies review comments and a code snippet by substring tests, builds a
  prompt from a fixed template, sends it to a chat-completion service and returns the
  text of the first choice. This theory embeds the class \<^verbatim>\<open>EmpathethicCodeReviewer\<close>
  and the command line entry point \<^verbatim>\<open>main\<close>, function by function.
\<close>

subsection \<open>Python strings\<close>

text \<open>
  A Python \<^verbatim>\<open>str\<close> is a \<open>string\<close>: the list of its characters, a character
  outside ASCII standing as its UTF-8 bytes. The three characters that an Isabelle string
  literal cannot hold are named.
\<close>

definition dquote :: string where
  "dquote = [CHR 0x22]"

definition squote :: string where
  "squote = [CHR 0x27]"

definition backtick :: string where
  "backtick = [CHR 0x60]"

definition ascii_uppercase :: string where
  "ascii_uppercase = ''ABCDEFGHIJKLMNOPQRSTUVWXYZ''"

definition ascii_lowercase :: string where
  "ascii_lowercase = ''abcdefghijklmnopqrstuvwxyz''"

text \<open>
  \<^verbatim>\<open>str.lower()\<close>: every letter \<^verbatim>\<open>A\<close>..\<^verbatim>\<open>Z\<close> becomes \<^verbatim>\<open>a\<close>..\<^verbatim>\<open>z\<close>; every other
  character stays. Python lower-cases letters outside ASCII too; that part of
  \<^verbatim>\<open>lower\<close> is not modelled. The program applies \<^verbatim>\<open>lower\<close> to a comment before it
  looks for the ASCII keywords below, and to the language name.
\<close>

definition lower_char :: "char \<Rightarrow> char" where
  "lower_char c =
     (case map_of (zip ascii_uppercase ascii_lowercase) c of Some l \<Rightarrow> l | None \<Rightarrow> c)"

definition lower :: "string \<Rightarrow> string" where
  "lower s = map lower_char s"

text \<open>
  \<^verbatim>\<open>needle in haystack\<close> on two strings: the needle starts at some position of the
  haystack (the empty needle is in every string).
\<close>

fun str_in :: "string \<Rightarrow> string \<Rightarrow> bool" where
  "str_in needle [] = (needle = [])"
| "str_in needle (c # cs) = (prefix needle (c # cs) \<or> str_in needle cs)"

text \<open>\<^verbatim>\<open>sep.join(xs)\<close>.\<close>

fun join :: "string \<Rightarrow> string list \<Rightarrow> string" where
  "join sep [] = []"
| "join sep [x] = x"
| "join sep (x # y # ys) = x @ sep @ join sep (y # ys)"

text \<open>\<^verbatim>\<open>str(n)\<close> for an integer \<open>n \<ge> 0\<close>: its decimal digits.\<close>

definition digit_char :: "nat \<Rightarrow> char" where
  "digit_char d = ''0123456789'' ! d"

fun str_nat :: "nat \<Rightarrow> string" where
  "str_nat n = (if n < 10 then [digit_char n] else str_nat (n div 10) @ [digit_char (n mod 10)])"

declare str_nat.simps [simp del]

subsection \<open>The heuristic classifiers\<close>

text \<open>
  \<^verbatim>\<open>_analyze_comment_severity\<close> (lines 30-42) and \<^verbatim>\<open>_get_language_from_code\<close>
  (lines 44-53). A leading underscore is no Isabelle name, so it is dropped.
\<close>

definition harsh_indicators :: "string list" where
  "harsh_indicators =
     [''bad'', ''wrong'', ''terrible'', ''awful'', ''stupid'', ''inefficient'',
      ''don'' @ squote @ ''t'']"

definition neutral_indicators :: "string list" where
  "neutral_indicators = [''could'', ''might'', ''consider'', ''suggest'']"

definition analyze_comment_severity :: "string \<Rightarrow> string" where
  "analyze_comment_severity comment =
     (let comment_lower = lower comment in
      if list_ex (\<lambda>indicator. str_in indicator comment_lower) harsh_indicators
      then ''harsh''
      else if list_ex (\<lambda>indicator. str_in indicator comment_lower) neutral_indicators
      then ''neutral''
      else ''constructive'')"

definition get_language_from_code :: "string \<Rightarrow> string" where
  "get_language_from_code code_snippet =
     (if str_in ''def '' code_snippet \<and> str_in '':'' code_snippet then ''Python''
      else if str_in ''function'' code_snippet \<and> str_in ''{'' code_snippet then ''JavaScript''
      else if str_in ''public class'' code_snippet \<or> str_in ''private '' code_snippet
      then ''Java''
      else ''Python'')"

subsection \<open>The prompt builder\<close>

text \<open>
  The static text of the f-string of \<^verbatim>\<open>_create_empathetic_prompt\<close> (lines 61-115), one
  list element per source line, cut at the seven interpolations.
\<close>

definition prompt_preamble :: string where
  "prompt_preamble = concat
    [''You are an exceptional senior software engineer and mentor known for your ability to provide constructive, empathetic feedback that helps developers grow. Your mission is to transform direct, potentially harsh code review comments into supportive, educational guidance.\<newline>'',
     ''\<newline>'',
     ''**Context:**\<newline>'']"

definition prompt_code_heading :: string where
  "prompt_code_heading = concat
    [''\<newline>'',
     ''**Code Under Review:**\<newline>'']"

definition prompt_comments_heading :: string where
  "prompt_comments_heading = concat
    [backtick @ backtick @ backtick @ ''\<newline>'',
     ''\<newline>'',
     ''**Original Review Comments:**\<newline>'']"

definition prompt_task :: string where
  "prompt_task = concat
    [''\<newline>'',
     ''**Your Task:**\<newline>'',
     ''Transform each comment into a well-structured analysis following this exact format for each comment:\<newline>'',
     ''\<newline>'',
     ''---\<newline>'',
     ''### Analysis of Comment: '' @ dquote @ ''[Original Comment]'' @ dquote @ ''\<newline>'',
     ''\<newline>'',
     ''**Positive Rephrasing:** [Rewrite the feedback to be encouraging and supportive while maintaining technical accuracy. Start with something positive about the code, then gently introduce the improvement opportunity.]\<newline>'',
     ''\<newline>'',
     ''**The '' @ squote @ ''Why'' @ squote @ '':** [Explain the underlying software engineering principle, performance consideration, or best practice. Make it educational and help the developer understand the deeper reasoning.]\<newline>'',
     ''\<newline>'',
     ''**Suggested Improvement:**\<newline>'']"

definition prompt_format_rules :: string where
  "prompt_format_rules = concat
    [''[Provide a concrete, working code example that demonstrates the recommended fix. Ensure the code is syntactically correct and represents a meaningful improvement.]\<newline>'',
     backtick @ backtick @ backtick @ ''\<newline>'',
     ''\<newline>'',
     ''**Learn More:** [Provide a relevant link to official documentation, style guides, or authoritative resources that support this recommendation.]\<newline>'',
     ''\<newline>'',
     ''---\<newline>'',
     ''\<newline>'',
     ''**Instructions for tone adaptation:**\<newline>'',
     ''- For harsh comments: Be extra gentle and encouraging, acknowledge what'' @ squote @ ''s working first\<newline>'',
     ''- For neutral comments: Maintain supportive tone while being direct about improvements  \<newline>'',
     ''- For constructive comments: Enhance the existing positive tone with more detail\<newline>'',
     ''\<newline>'',
     ''**After analyzing all comments, add:**\<newline>'',
     ''\<newline>'',
     ''## Overall Assessment\<newline>'',
     ''\<newline>'',
     ''[Provide a holistic, encouraging summary that:\<newline>'',
     ''1. Acknowledges the developer'' @ squote @ ''s effort and what they did well\<newline>'',
     ''2. Frames the suggestions as growth opportunities\<newline>'',
     ''3. Encourages continued learning and improvement\<newline>'',
     ''4. Maintains an optimistic, supportive tone]\<newline>'',
     ''\<newline>'',
     ''**Quality Standards:**\<newline>'',
     ''- Be specific and actionable, not generic\<newline>'',
     ''- Ensure all code examples are syntactically correct and runnable\<newline>'',
     ''- Provide genuine technical insights, not just politeness\<newline>'',
     ''- Make explanations clear for developers at different skill levels\<newline>'',
     ''- Include relevant links to authoritative sources when possible'']"

text \<open>
  The severity line joins \<^verbatim>\<open>set(severity_analysis)\<close>. The order in which Python iterates
  a set of strings follows the strings' hashes, which the interpreter salts anew in every
  process (hash randomisation), so the order is no function of the elements alone: it is
  the parameter \<open>set_order\<close>, from the list the set is built from to the list the
  iteration yields. \<open>iterates_set\<close> says what every interpreter guarantees of it: each
  element once, and no other.
\<close>

definition iterates_set :: "(string list \<Rightarrow> string list) \<Rightarrow> bool" where
  "iterates_set set_order \<longleftrightarrow> (\<forall>xs. distinct (set_order xs) \<and> set (set_order xs) = set xs)"

definition create_empathetic_prompt ::
  "(string list \<Rightarrow> string list) \<Rightarrow> string \<Rightarrow> string list \<Rightarrow> string" where
  "create_empathetic_prompt set_order code_snippet comments =
     (let language = get_language_from_code code_snippet;
          severity_analysis = map analyze_comment_severity comments
      in concat
        [prompt_preamble,
         ''- Programming Language: '', language, ''\<newline>'',
         ''- Number of comments to transform: '', str_nat (length comments), ''\<newline>'',
         ''- Comment severity levels detected: '',
           join '', '' (set_order severity_analysis), ''\<newline>'',
         prompt_code_heading,
         backtick @ backtick @ backtick, lower language, ''\<newline>'',
         code_snippet, ''\<newline>'',
         prompt_comments_heading,
         join ''\<newline>''
           (map (\<lambda>(i, comment). str_nat (i + 1) @ ''. '' @ comment) (enumerate 0 comments)),
           ''\<newline>'',
         prompt_task,
         backtick @ backtick @ backtick, lower language, ''\<newline>'',
         prompt_format_rules])"

subsection \<open>The completion client and \<^verbatim>\<open>review_code\<close>\<close>

text \<open>
  An exception is its class name and its \<^verbatim>\<open>str(e)\<close>. Only instances of
  \<^verbatim>\<open>Exception\<close> are modelled; a handler \<^verbatim>\<open>except C\<close> is a test of the class name.
\<close>

datatype exn = Exn (exn_class: string) (exn_str: string)

record chat_message =
  role :: string
  content :: string

record completion_request =
  model :: string
  messages :: "chat_message list"
  stream :: bool

record choice =
  message :: chat_message

record chat_completion =
  choices :: "choice list"

text \<open>
  What \<^verbatim>\<open>json.load\<close> returns. The values under the two keys reach \<^verbatim>\<open>review_code\<close>
  as they are: Python checks no annotation.
\<close>

datatype json =
  JNull
| JBool bool
| JInt int
| JFloat real
| JString string
| JArray "json list"
| JObject "(string \<times> json) list"

text \<open>
  What the program takes from outside its own text:
  \<^item> \<open>set_order\<close>: the interpreter's iteration order of a set of strings (see above);
  \<^item> \<open>completions_create\<close>: \<^verbatim>\<open>self.client.chat.completions.create\<close>, which answers
    a request with a completion or raises;
  \<^item> \<open>untyped_prompt\<close>: \<^verbatim>\<open>_create_empathetic_prompt\<close> on arguments that are not a
    \<^verbatim>\<open>str\<close> and a list of \<^verbatim>\<open>str\<close>, where the interpreter either raises (as
    \<^verbatim>\<open>'def ' in 5\<close> does) or builds some text;
  \<^item> \<open>groq_init\<close>: the exception the constructor \<^verbatim>\<open>Groq(api_key=...)\<close> raises, if any;
  \<^item> \<open>json_load\<close>: \<^verbatim>\<open>json.load\<close> on a file's text, a value or the exception raised
    (\<^verbatim>\<open>JSONDecodeError\<close> for text that is not JSON);
  \<^item> \<open>not_a_dict\<close>: the exception \<^verbatim>\<open>process_json_input\<close> ends in when its argument is
    no dict (the \<^verbatim>\<open>TypeError\<close> of \<^verbatim>\<open>in\<close> or of the subscript, or the
    \<^verbatim>\<open>ValueError\<close> of line 153).
\<close>

record runtime =
  set_order :: "string list \<Rightarrow> string list"
  completions_create :: "completion_request \<Rightarrow> exn + chat_completion"
  untyped_prompt :: "json \<Rightarrow> json \<Rightarrow> exn + string"
  groq_init :: "exn option"
  json_load :: "string \<Rightarrow> exn + json"
  not_a_dict :: "json \<Rightarrow> exn"

text \<open>
  A call either returns a value or raises (\<open>Inl\<close>); beside it stands the list of
  requests it sent to the completion service.
\<close>

type_synonym 'a outcome = "(exn + 'a) \<times> completion_request list"

definition system_content :: string where
  "system_content = ''You are an senior software engineer and mentor specializing in empathetic, educational code reviews. You excel at transforming harsh feedback into constructive guidance while maintaining technical accuracy.''"

definition review_request :: "string \<Rightarrow> completion_request" where
  "review_request prompt =
     \<lparr>model = ''openai/gpt-oss-20b'',
      messages = [\<lparr>role = ''system'', content = system_content\<rparr>,
                  \<lparr>role = ''user'', content = prompt\<rparr>],
      stream = False\<rparr>"

text \<open>
  The \<^verbatim>\<open>try\<close> block of \<^verbatim>\<open>review_code\<close> (lines 131-145), from the prompt or the
  exception its construction raised: the call of the client, then
  \<^verbatim>\<open>response.choices[0].message.content\<close>, where an empty list of choices raises
  \<^verbatim>\<open>IndexError\<close>. The content of a message is a string, as the return annotation
  \<^verbatim>\<open>-> str\<close> has it.
\<close>

definition review_code_try :: "runtime \<Rightarrow> exn + string \<Rightarrow> string outcome" where
  "review_code_try rt prompt_result =
     (case prompt_result of
        Inl e \<Rightarrow> (Inl e, [])
      | Inr prompt \<Rightarrow>
          (case completions_create rt (review_request prompt) of
             Inl e \<Rightarrow> (Inl e, [review_request prompt])
           | Inr response \<Rightarrow>
               ((case choices response of
                   [] \<Rightarrow> Inl (Exn ''IndexError'' ''list index out of range'')
                 | c # _ \<Rightarrow> Inr (content (message c))),
                [review_request prompt])))"

text \<open>The handler \<^verbatim>\<open>except Exception as e\<close> (lines 147-148).\<close>

definition review_code_except :: "string outcome \<Rightarrow> string outcome" where
  "review_code_except r =
     (case r of
        (Inl e, sent) \<Rightarrow> (Inr (''Error generating empathetic review: '' @ exn_str e), sent)
      | (Inr text, sent) \<Rightarrow> (Inr text, sent))"

definition review_code :: "runtime \<Rightarrow> string \<Rightarrow> string list \<Rightarrow> string outcome" where
  "review_code rt code_snippet review_comments =
     review_code_except
       (review_code_try rt
          (Inr (create_empathetic_prompt (set_order rt) code_snippet review_comments)))"

text \<open>
  \<^verbatim>\<open>review_code\<close> on the values of a JSON object. On a string and a list of strings
  the prompt is the one above; on anything else the prompt, or the exception, is the
  interpreter's. Either way it is computed inside the \<^verbatim>\<open>try\<close>.
\<close>

fun as_str :: "json \<Rightarrow> string option" where
  "as_str (JString s) = Some s"
| "as_str _ = None"

fun as_str_list :: "json \<Rightarrow> string list option" where
  "as_str_list (JArray vs) =
     (if list_all (\<lambda>v. as_str v \<noteq> None) vs then Some (map (\<lambda>v. the (as_str v)) vs) else None)"
| "as_str_list _ = None"

definition prompt_for :: "runtime \<Rightarrow> json \<Rightarrow> json \<Rightarrow> exn + string" where
  "prompt_for rt code_snippet review_comments =
     (case (as_str code_snippet, as_str_list review_comments) of
        (Some code, Some comments) \<Rightarrow> Inr (create_empathetic_prompt (set_order rt) code comments)
      | _ \<Rightarrow> untyped_prompt rt code_snippet review_comments)"

definition review_code_any :: "runtime \<Rightarrow> json \<Rightarrow> json \<Rightarrow> string outcome" where
  "review_code_any rt code_snippet review_comments =
     review_code_except (review_code_try rt (prompt_for rt code_snippet review_comments))"

subsection \<open>\<^verbatim>\<open>process_json_input\<close>\<close>

text \<open>Lines 150-158. A dict is a map from its keys to their values.\<close>

definition missing_keys_error :: exn where
  "missing_keys_error =
     Exn ''ValueError''
       (''JSON must contain '' @ squote @ ''code_snippet'' @ squote @ '' and '' @ squote
          @ ''review_comments'' @ squote @ '' keys'')"

definition process_json_input :: "runtime \<Rightarrow> (string \<rightharpoonup> json) \<Rightarrow> string outcome" where
  "process_json_input rt json_data =
     (if json_data ''code_snippet'' = None \<or> json_data ''review_comments'' = None
      then (Inl missing_keys_error, [])
      else review_code_any rt (the (json_data ''code_snippet''))
             (the (json_data ''review_comments'')))"

subsection \<open>The command line: \<^verbatim>\<open>main\<close>\<close>

text \<open>
  The parsed arguments, and the world \<^verbatim>\<open>main\<close> acts on: the files that can be read
  (a path that is no key does not exist; an entry may be one whose opening or reading
  raises), the exception that opening a path for writing raises, if any, the lines
  printed to standard output and to standard error, and the requests sent to the
  completion service. The field for \<^verbatim>\<open>args.output\<close> is \<open>output_arg\<close>.
\<close>

record args =
  input_file :: string
  output_arg :: "string option"

datatype file_entry = File string | Unreadable exn

record world =
  files :: "string \<rightharpoonup> file_entry"
  unwritable :: "string \<rightharpoonup> exn"
  stdout :: "string list"
  stderr :: "string list"
  requests :: "completion_request list"

definition open_read :: "world \<Rightarrow> string \<Rightarrow> exn + string" where
  "open_read w path =
     (case files w path of
        None \<Rightarrow>
          Inl (Exn ''FileNotFoundError''
                 (''[Errno 2] No such file or directory: '' @ squote @ path @ squote))
      | Some (Unreadable e) \<Rightarrow> Inl e
      | Some (File text) \<Rightarrow> Inr text)"

text \<open>A JSON object as the dict \<^verbatim>\<open>json.load\<close> builds: the last of equal keys wins.\<close>

definition dict_of :: "(string \<times> json) list \<Rightarrow> (string \<rightharpoonup> json)" where
  "dict_of kvs = map_of (rev kvs)"

definition process_json_value :: "runtime \<Rightarrow> json \<Rightarrow> string outcome" where
  "process_json_value rt input_data =
     (case input_data of
        JObject kvs \<Rightarrow> process_json_input rt (dict_of kvs)
      | _ \<Rightarrow> (Inl (not_a_dict rt input_data), []))"

text \<open>
  The \<^verbatim>\<open>try\<close> block of \<^verbatim>\<open>main\<close> (lines 177-191): the exception that leaves it, if
  any, and the world as it is then. \<^verbatim>\<open>if args.output\<close> holds for a path that is not
  empty.
\<close>

definition main_try :: "runtime \<Rightarrow> args \<Rightarrow> world \<Rightarrow> exn option \<times> world" where
  "main_try rt a w =
     (case open_read w (input_file a) of
        Inl e \<Rightarrow> (Some e, w)
      | Inr text \<Rightarrow>
          (case json_load rt text of
             Inl e \<Rightarrow> (Some e, w)
           | Inr input_data \<Rightarrow>
               (case groq_init rt of
                  Some e \<Rightarrow> (Some e, w)
                | None \<Rightarrow>
                    (case process_json_value rt input_data of
                       (Inl e, sent) \<Rightarrow> (Some e, w\<lparr>requests := requests w @ sent\<rparr>)
                     | (Inr result, sent) \<Rightarrow>
                         (let w1 = w\<lparr>requests := requests w @ sent\<rparr> in
                          case output_arg a of
                            None \<Rightarrow> (None, w1\<lparr>stdout := stdout w1 @ [result]\<rparr>)
                          | Some path \<Rightarrow>
                              if path = [] then (None, w1\<lparr>stdout := stdout w1 @ [result]\<rparr>)
                              else
                                (case unwritable w1 path of
                                   Some e \<Rightarrow> (Some e, w1)
                                 | None \<Rightarrow>
                                     (None,
                                      w1\<lparr>files := (files w1)(path \<mapsto> File result),
                                         stdout := stdout w1 @
                                           [''Empathetic review written to '' @ path]\<rparr>)))))))"

text \<open>
  \<^verbatim>\<open>main\<close> (lines 160-201) after \<^verbatim>\<open>parse_args\<close>: the exit code and the world it
  leaves. The three handlers are tried in the order of the source.
\<close>

definition main :: "runtime \<Rightarrow> args \<Rightarrow> world \<Rightarrow> nat \<times> world" where
  "main rt a w =
     (case main_try rt a w of
        (None, w') \<Rightarrow> (0, w')
      | (Some e, w') \<Rightarrow>
          if exn_class e = ''FileNotFoundError''
          then (1, w'\<lparr>stderr := stderr w' @
                  [''Error: Input file '' @ squote @ input_file a @ squote @ '' not found'']\<rparr>)
          else if exn_class e = ''JSONDecodeError''
          then (1, w'\<lparr>stderr := stderr w' @
                  [''Error: Invalid JSON in '' @ squote @ input_file a @ squote]\<rparr>)
          else (1, w'\<lparr>stderr := stderr w' @ [''Error: '' @ exn_str e]\<rparr>))"

subsection \<open>Stubbed clients\<close>

text \<open>
  A client that answers every request with one choice of a fixed text, a client that
  raises a fixed exception on every request, and a runtime around a client for the
  examples: sets iterate in the order of first insertion, \<^verbatim>\<open>json.load\<close> knows the
  empty object only.
\<close>

definition stub_client :: "string \<Rightarrow> completion_request \<Rightarrow> exn + chat_completion" where
  "stub_client text request =
     Inr \<lparr>choices = [\<lparr>message = \<lparr>role = ''assistant'', content = text\<rparr>\<rparr>]\<rparr>"

definition failing_client :: "exn \<Rightarrow> completion_request \<Rightarrow> exn + chat_completion" where
  "failing_client e request = Inl e"

definition test_runtime :: "(completion_request \<Rightarrow> exn + chat_completion) \<Rightarrow> runtime" where
  "test_runtime client =
     \<lparr>set_order = remdups,
      completions_create = client,
      untyped_prompt = (\<lambda>code_snippet review_comments.
        Inl (Exn ''TypeError'' ''argument of type is not iterable'')),
      groq_init = None,
      json_load = (\<lambda>text.
        if text = ''{}'' then Inr (JObject [])
        else Inl (Exn ''JSONDecodeError'' ''Expecting value: line 1 column 1 (char 0)'')),
      not_a_dict = (\<lambda>input_data. Exn ''TypeError'' ''argument of type is not iterable'')\<rparr>"

subsection \<open>The classifiers as the specification words them\<close>

text \<open>
  The specification's algorithms, over its keyword sets and the library's substring
  relation \<open>sublist\<close>; the theorems below compare the code with them.
\<close>

definition harsh_keywords :: "string set" where
  "harsh_keywords =
     {''bad'', ''wrong'', ''terrible'', ''awful'', ''stupid'', ''inefficient'',
      ''don'' @ squote @ ''t''}"

definition neutral_keywords :: "string set" where
  "neutral_keywords = {''could'', ''might'', ''consider'', ''suggest''}"

definition severity_reference :: "string \<Rightarrow> string" where
  "severity_reference comment =
     (if \<exists>k \<in> harsh_keywords. sublist k (lower comment) then ''harsh''
      else if \<exists>k \<in> neutral_keywords. sublist k (lower comment) then ''neutral''
      else ''constructive'')"

definition language_reference :: "string \<Rightarrow> string" where
  "language_reference code =
     (if sublist ''def '' code \<and> sublist '':'' code then ''Python''
      else if sublist ''function'' code \<and> sublist ''{'' code then ''JavaScript''
      else if sublist ''public class'' code \<or> sublist ''private '' code then ''Java''
      else ''Python'')"

section \<open>Properties\<close>

subsection \<open>Substring tests\<close>

lemma str_in_iff_sublist: "str_in needle haystack \<longleftrightarrow> sublist needle haystack"
  by (induction haystack) (auto simp: sublist_Cons_right)

subsection \<open>The classifiers\<close>

lemma set_harsh_indicators: "set harsh_indicators = harsh_keywords"
  by (simp add: harsh_indicators_def harsh_keywords_def)

lemma set_neutral_indicators: "set neutral_indicators = neutral_keywords"
  by (simp add: neutral_indicators_def neutral_keywords_def)

lemma any_harsh_iff:
  "list_ex (\<lambda>indicator. str_in indicator s) harsh_indicators \<longleftrightarrow>
     (\<exists>k \<in> harsh_keywords. sublist k s)"
  by (simp add: list_ex_iff str_in_iff_sublist set_harsh_indicators)

lemma any_neutral_iff:
  "list_ex (\<lambda>indicator. str_in indicator s) neutral_indicators \<longleftrightarrow>
     (\<exists>k \<in> neutral_keywords. sublist k s)"
  by (simp add: list_ex_iff str_in_iff_sublist set_neutral_indicators)

lemma severity_refines: "analyze_comment_severity comment = severity_reference comment"
  by (simp add: analyze_comment_severity_def severity_reference_def any_harsh_iff any_neutral_iff)

lemma lower_keyword: "k \<in> harsh_keywords \<union> neutral_keywords \<Longrightarrow> lower k = k"
  by (auto simp: harsh_keywords_def neutral_keywords_def lower_def lower_char_def
        ascii_uppercase_def ascii_lowercase_def squote_def)

lemma sublist_lower: "sublist k s \<Longrightarrow> sublist (lower k) (lower s)"
proof -
  assume "sublist k s"
  then obtain ps ss where "s = ps @ k @ ss" by (auto simp: sublist_def)
  then have "lower s = lower ps @ lower k @ lower ss" by (simp add: lower_def)
  then show ?thesis unfolding sublist_def by blast
qed

text \<open>
  Claim C2. For every comment, \<^verbatim>\<open>_analyze_comment_severity\<close> returns what the
  specification's algorithm returns: the comment is lower-cased; it is harsh if it contains
  one of the seven harsh keywords, else neutral if it contains one of the four neutral
  keywords, else constructive. So a comment with a harsh keyword (as written, or after
  lower-casing) is harsh whatever neutral keywords it holds, and a comment whose
  lower-cased text holds no keyword of either set is constructive.
\<close>

theorem severity_matches_reference:
  "analyze_comment_severity comment = severity_reference comment \<and>
   ((\<exists>k \<in> harsh_keywords. sublist k comment \<or> sublist k (lower comment)) \<longrightarrow>
      analyze_comment_severity comment = ''harsh'') \<and>
   (\<not> (\<exists>k \<in> harsh_keywords \<union> neutral_keywords. sublist k (lower comment)) \<longrightarrow>
      analyze_comment_severity comment = ''constructive'')"
proof (intro conjI impI)
  show "analyze_comment_severity comment = severity_reference comment"
    by (rule severity_refines)
next
  assume "\<exists>k \<in> harsh_keywords. sublist k comment \<or> sublist k (lower comment)"
  then obtain k where k: "k \<in> harsh_keywords"
    and "sublist k comment \<or> sublist k (lower comment)" by blast
  then have "sublist k (lower comment)"
    using sublist_lower [of k comment] lower_keyword [of k] by auto
  with k show "analyze_comment_severity comment = ''harsh''"
    unfolding severity_refines severity_reference_def by auto
next
  assume "\<not> (\<exists>k \<in> harsh_keywords \<union> neutral_keywords. sublist k (lower comment))"
  then show "analyze_comment_severity comment = ''constructive''"
    unfolding severity_refines severity_reference_def by auto
qed

theorem severity_matches_reference_witness:
  "(\<exists>k \<in> harsh_keywords. sublist k (lower ''You could say this is Bad'')) \<and>
   (\<exists>k \<in> neutral_keywords. sublist k (lower ''You could say this is Bad'')) \<and>
   analyze_comment_severity ''You could say this is Bad'' = ''harsh'' \<and>
   \<not> (\<exists>k \<in> harsh_keywords \<union> neutral_keywords. sublist k (lower ''Looks fine to me'')) \<and>
   analyze_comment_severity ''Looks fine to me'' = ''constructive''"
proof -
  have h: "\<exists>k \<in> harsh_keywords. sublist k (lower ''You could say this is Bad'')"
    by code_simp
  have n: "\<exists>k \<in> neutral_keywords. sublist k (lower ''You could say this is Bad'')"
    by code_simp
  have c: "\<not> (\<exists>k \<in> harsh_keywords \<union> neutral_keywords. sublist k (lower ''Looks fine to me''))"
    by code_simp
  from h n c severity_matches_reference [of "''You could say this is Bad''"]
    severity_matches_reference [of "''Looks fine to me''"]
  show ?thesis by blast
qed

text \<open>
  Claim C3. For every code string, \<^verbatim>\<open>_get_language_from_code\<close> returns what the
  specification's checks return in their order: Python for \<^verbatim>\<open>def \<close> and a colon, else
  JavaScript for \<^verbatim>\<open>function\<close> and an opening brace, else Java for
  \<^verbatim>\<open>public class\<close> or \<^verbatim>\<open>private \<close>, else Python.
\<close>

theorem language_matches_reference:
  "get_language_from_code code = language_reference code"
  by (simp add: get_language_from_code_def language_reference_def str_in_iff_sublist)

theorem language_matches_reference_witness:
  "get_language_from_code ''def f(): pass'' = language_reference ''def f(): pass'' \<and>
   language_reference ''def f(): pass'' = ''Python'' \<and>
   get_language_from_code ''function f() { return 1; }'' = ''JavaScript'' \<and>
   get_language_from_code ''private int x;'' = ''Java'' \<and>
   get_language_from_code ''x = 1'' = ''Python''"
proof -
  have "get_language_from_code ''function f() { return 1; }'' = ''JavaScript''"
    and "get_language_from_code ''private int x;'' = ''Java''"
    and "get_language_from_code ''x = 1'' = ''Python''"
    and "get_language_from_code ''def f(): pass'' = ''Python''"
    by (simp_all add: get_language_from_code_def)
  with language_matches_reference [of "''def f(): pass''"] show ?thesis by simp
qed

text \<open>
  Claim C10. Both classifiers return on every string, and only their labels: the severity
  is harsh, neutral or constructive, the language is Python, JavaScript or Java.
\<close>

theorem classifiers_total:
  "analyze_comment_severity comment \<in> {''harsh'', ''neutral'', ''constructive''} \<and>
   get_language_from_code code \<in> {''Python'', ''JavaScript'', ''Java''}"
  by (simp add: analyze_comment_severity_def get_language_from_code_def Let_def)

theorem classifiers_total_witness:
  "analyze_comment_severity ''This is terrible'' \<in> {''harsh'', ''neutral'', ''constructive''} \<and>
   get_language_from_code ''public class A {}'' \<in> {''Python'', ''JavaScript'', ''Java''}"
  using classifiers_total [of "''This is terrible''" "''public class A {}''"] .

subsection \<open>The prompt builder\<close>

lemma distinct_singleton_set: "distinct xs \<Longrightarrow> set xs = {x} \<Longrightarrow> xs = [x]"
proof -
  assume d: "distinct xs" and s: "set xs = {x}"
  then have "length xs = 1" using distinct_card [of xs] by simp
  then obtain y where "xs = [y]" by (cases xs) auto
  with s show ?thesis by simp
qed

lemma iterates_set_Nil: "iterates_set so \<Longrightarrow> so [] = []"
proof -
  assume "iterates_set so"
  then have "set (so []) = set []" unfolding iterates_set_def by blast
  then show ?thesis by simp
qed

lemma iterates_set_const:
  assumes "iterates_set so" and "xs \<noteq> []" and "\<forall>y \<in> set xs. y = x"
  shows "so xs = [x]"
proof -
  from assms(2,3) have "set xs = {x}" by (cases xs) auto
  with assms(1) have "distinct (so xs)" and "set (so xs) = {x}"
    by (simp_all add: iterates_set_def)
  then show ?thesis by (rule distinct_singleton_set)
qed

lemma iterates_set_remdups: "iterates_set remdups"
  by (simp add: iterates_set_def)

lemma iterates_set_rev_remdups: "iterates_set (rev \<circ> remdups)"
  by (simp add: iterates_set_def)

lemma severity_bad: "analyze_comment_severity ''This is bad'' = ''harsh''"
  by (simp add: analyze_comment_severity_def lower_def lower_char_def ascii_uppercase_def
      ascii_lowercase_def harsh_indicators_def)

lemma severity_wrong: "analyze_comment_severity ''This is wrong'' = ''harsh''"
  by (simp add: analyze_comment_severity_def lower_def lower_char_def ascii_uppercase_def
      ascii_lowercase_def harsh_indicators_def)

lemma severity_could: "analyze_comment_severity ''You could rename it'' = ''neutral''"
  by (simp add: analyze_comment_severity_def lower_def lower_char_def ascii_uppercase_def
      ascii_lowercase_def harsh_indicators_def neutral_indicators_def squote_def)

lemma prompt_cong:
  "so1 (map analyze_comment_severity comments) = so2 (map analyze_comment_severity comments) \<Longrightarrow>
   create_empathetic_prompt so1 code comments = create_empathetic_prompt so2 code comments"
  by (simp add: create_empathetic_prompt_def)

lemma set_order_single_label:
  assumes so: "iterates_set so"
    and same: "\<forall>c \<in> set comments. \<forall>c' \<in> set comments. f c = f c'"
  shows "so (map f comments) = (case comments of [] \<Rightarrow> [] | c # cs \<Rightarrow> [f c])"
proof (cases comments)
  case Nil
  with so show ?thesis by (simp add: iterates_set_Nil)
next
  case (Cons c cs)
  have "\<forall>y \<in> set (map f comments). y = f c"
  proof
    fix y assume "y \<in> set (map f comments)"
    then obtain c' where "c' \<in> set comments" and y: "y = f c'" by auto
    moreover have "c \<in> set comments" using Cons by simp
    ultimately have "f c' = f c" using same by blast
    with y show "y = f c" by simp
  qed
  moreover have "map f comments \<noteq> []" using Cons by simp
  ultimately have "so (map f comments) = [f c]"
    using so by (intro iterates_set_const) 
  with Cons show ?thesis by simp
qed

lemma lower_Python: "lower ''Python'' = ''python''"
  by (simp add: lower_def lower_char_def ascii_uppercase_def ascii_lowercase_def)

lemma str_nat_1: "str_nat (Suc 0) = ''1''"
  by code_simp

lemma language_scenario: "get_language_from_code ''def f(): pass'' = ''Python''"
  by (simp add: get_language_from_code_def)

lemma severity_scenario: "analyze_comment_severity ''This is bad code'' = ''harsh''"
  by (simp add: analyze_comment_severity_def lower_def lower_char_def ascii_uppercase_def
      ascii_lowercase_def harsh_indicators_def)

lemma scenario_prompt:
  "create_empathetic_prompt so ''def f(): pass'' [''This is bad code''] =
     prompt_preamble @
     ''- Programming Language: Python\<newline>'' @
     ''- Number of comments to transform: 1\<newline>'' @
     ''- Comment severity levels detected: '' @ join '', '' (so [''harsh'']) @ ''\<newline>'' @
     prompt_code_heading @
     backtick @ backtick @ backtick @ ''python\<newline>'' @
     ''def f(): pass\<newline>'' @
     prompt_comments_heading @
     ''1. This is bad code\<newline>'' @
     prompt_task @
     backtick @ backtick @ backtick @ ''python\<newline>'' @
     prompt_format_rules"
  by (simp add: create_empathetic_prompt_def language_scenario severity_scenario lower_Python
      str_nat_1 enumerate_eq_zip)

lemma preamble_mentions_harsh: "sublist ''harsh'' prompt_preamble"
  by code_simp

text \<open>
  Claim C6, as stated: the prompt is a function of the code snippet and the comments alone.
  It is not. With one harsh and one neutral comment the severity line lists the two labels
  in the order in which the interpreter iterates the set, and two iteration orders, each
  a legitimate one, give two prompts.
\<close>

theorem prompt_varies_with_set_order:
  "iterates_set remdups \<and> iterates_set (rev \<circ> remdups) \<and>
   create_empathetic_prompt remdups ''x = 1'' [''This is bad'', ''You could rename it''] \<noteq>
   create_empathetic_prompt (rev \<circ> remdups) ''x = 1'' [''This is bad'', ''You could rename it'']"
proof -
  have "create_empathetic_prompt remdups ''x = 1'' [''This is bad'', ''You could rename it''] \<noteq>
   create_empathetic_prompt (rev \<circ> remdups) ''x = 1'' [''This is bad'', ''You could rename it'']"
    by (simp add: create_empathetic_prompt_def Let_def severity_bad severity_could)
  with iterates_set_remdups iterates_set_rev_remdups show ?thesis by blast
qed

text \<open>
  Claim C6, amended. Two invocations of the prompt builder on the same code snippet and
  comments give the same prompt whenever the set of severity labels is iterated in the
  same order in both; and that is so under every two iteration orders when all comments
  get one label (or there is no comment). Beyond the order of the labels on the severity
  line, nothing in the prompt depends on anything but the inputs.
\<close>

theorem prompt_fixed_by_inputs_and_set_order:
  "(so1 (map analyze_comment_severity comments) = so2 (map analyze_comment_severity comments) \<longrightarrow>
      create_empathetic_prompt so1 code comments = create_empathetic_prompt so2 code comments) \<and>
   (iterates_set so1 \<and> iterates_set so2 \<and>
    (\<forall>c \<in> set comments. \<forall>c' \<in> set comments.
       analyze_comment_severity c = analyze_comment_severity c') \<longrightarrow>
      create_empathetic_prompt so1 code comments = create_empathetic_prompt so2 code comments)"
proof (intro conjI impI)
  assume "so1 (map analyze_comment_severity comments) = so2 (map analyze_comment_severity comments)"
  then show "create_empathetic_prompt so1 code comments = create_empathetic_prompt so2 code comments"
    by (rule prompt_cong)
next
  assume a: "iterates_set so1 \<and> iterates_set so2 \<and>
    (\<forall>c \<in> set comments. \<forall>c' \<in> set comments.
       analyze_comment_severity c = analyze_comment_severity c')"
  then have 1: "iterates_set so1" and 2: "iterates_set so2"
    and 3: "\<forall>c \<in> set comments. \<forall>c' \<in> set comments.
       analyze_comment_severity c = analyze_comment_severity c'"
    by blast+
  have "so1 (map analyze_comment_severity comments) = so2 (map analyze_comment_severity comments)"
    by (simp only: set_order_single_label [OF 1 3] set_order_single_label [OF 2 3])
  then show "create_empathetic_prompt so1 code comments = create_empathetic_prompt so2 code comments"
    by (rule prompt_cong)
qed

theorem prompt_fixed_by_inputs_and_set_order_witness:
  "remdups (map analyze_comment_severity [''This is bad'', ''This is wrong'']) = [''harsh''] \<and>
   (rev \<circ> remdups) (map analyze_comment_severity [''This is bad'', ''This is wrong'']) = [''harsh''] \<and>
   create_empathetic_prompt remdups ''x = 1'' [''This is bad'', ''This is wrong''] =
   create_empathetic_prompt (rev \<circ> remdups) ''x = 1'' [''This is bad'', ''This is wrong'']"
proof -
  have 1: "remdups (map analyze_comment_severity [''This is bad'', ''This is wrong'']) = [''harsh'']"
    by (simp add: severity_bad severity_wrong)
  have 2: "(rev \<circ> remdups) (map analyze_comment_severity [''This is bad'', ''This is wrong'']) =
      [''harsh'']"
    by (simp add: severity_bad severity_wrong)
  have 3: "\<forall>c \<in> set [''This is bad'', ''This is wrong'']. \<forall>c' \<in> set [''This is bad'', ''This is wrong''].
       analyze_comment_severity c = analyze_comment_severity c'"
    by (simp add: severity_bad severity_wrong)
  have "create_empathetic_prompt remdups ''x = 1'' [''This is bad'', ''This is wrong''] =
      create_empathetic_prompt (rev \<circ> remdups) ''x = 1'' [''This is bad'', ''This is wrong'']"
    by (rule prompt_fixed_by_inputs_and_set_order [THEN conjunct2, THEN mp])
      (intro conjI iterates_set_remdups iterates_set_rev_remdups 3)
  with 1 2 show ?thesis by (intro conjI)
qed

text \<open>
  Claim C8. On the code \<^verbatim>\<open>def f(): pass\<close> and the one comment
  \<^verbatim>\<open>This is bad code\<close>: the language is Python, the severity is harsh, the prompt
  contains \<^verbatim>\<open>Python\<close> (on its language line), \<^verbatim>\<open>harsh\<close> (in its fixed text, and on
  its severity line under every iteration order of a set) and the comment (as the first of
  the numbered comments), and with a client that answers \<^verbatim>\<open>OK\<close> the request is
  processed to exactly \<^verbatim>\<open>OK\<close>, after one call of the client.
\<close>

theorem end_to_end_scenario:
  "get_language_from_code ''def f(): pass'' = ''Python'' \<and>
   analyze_comment_severity ''This is bad code'' = ''harsh'' \<and>
   sublist ''Python'' (create_empathetic_prompt so ''def f(): pass'' [''This is bad code'']) \<and>
   sublist ''harsh'' (create_empathetic_prompt so ''def f(): pass'' [''This is bad code'']) \<and>
   sublist ''This is bad code''
     (create_empathetic_prompt so ''def f(): pass'' [''This is bad code'']) \<and>
   sublist ''- Programming Language: Python''
     (create_empathetic_prompt so ''def f(): pass'' [''This is bad code'']) \<and>
   sublist ''1. This is bad code''
     (create_empathetic_prompt so ''def f(): pass'' [''This is bad code'']) \<and>
   (iterates_set so \<longrightarrow>
      sublist ''- Comment severity levels detected: harsh''
        (create_empathetic_prompt so ''def f(): pass'' [''This is bad code''])) \<and>
   process_json_input (rt\<lparr>completions_create := stub_client ''OK''\<rparr>)
     [''code_snippet'' \<mapsto> JString ''def f(): pass'',
      ''review_comments'' \<mapsto> JArray [JString ''This is bad code'']] =
    (Inr ''OK'',
     [review_request (create_empathetic_prompt (set_order rt) ''def f(): pass''
        [''This is bad code''])])"
proof -
  let ?P = "create_empathetic_prompt so ''def f(): pass'' [''This is bad code'']"
  note P = scenario_prompt [of so]
  have lang: "sublist ''- Programming Language: Python'' ?P"
    unfolding P sublist_def
    by (intro exI [of _ prompt_preamble] exI [of _ "''\<newline>'' @ _"]) simp
  have com: "sublist ''1. This is bad code'' ?P"
    unfolding P sublist_def
    by (intro exI [of _ "prompt_preamble @ ''- Programming Language: Python\<newline>'' @
          ''- Number of comments to transform: 1\<newline>'' @
          ''- Comment severity levels detected: '' @ join '', '' (so [''harsh'']) @ ''\<newline>'' @
          prompt_code_heading @
          backtick @ backtick @ backtick @ ''python\<newline>'' @ ''def f(): pass\<newline>'' @
          prompt_comments_heading"] exI [of _ "''\<newline>'' @ _"]) simp
  have pre: "sublist prompt_preamble ?P"
    unfolding P by (rule sublist_append_rightI)
  have sev: "sublist ''- Comment severity levels detected: harsh'' ?P" if "iterates_set so"
  proof -
    have "so [''harsh''] = [''harsh'']"
      using that by (intro iterates_set_const) simp_all
    then show ?thesis
      unfolding P sublist_def
      by (intro exI [of _ "prompt_preamble @ ''- Programming Language: Python\<newline>'' @
          ''- Number of comments to transform: 1\<newline>''"] exI [of _ "''\<newline>'' @ _"]) simp
  qed
  have 1: "sublist ''Python'' ''- Programming Language: Python''" by code_simp
  have 3: "sublist ''This is bad code'' ''1. This is bad code''" by code_simp
  have run: "process_json_input (rt\<lparr>completions_create := stub_client ''OK''\<rparr>)
      [''code_snippet'' \<mapsto> JString ''def f(): pass'',
       ''review_comments'' \<mapsto> JArray [JString ''This is bad code'']] =
     (Inr ''OK'',
      [review_request (create_empathetic_prompt (set_order rt) ''def f(): pass''
         [''This is bad code''])])"
    by (simp add: process_json_input_def review_code_any_def prompt_for_def review_code_try_def
        review_code_except_def stub_client_def)
  note a = sublist_order.order.trans [OF 1 lang]
  note b = sublist_order.order.trans [OF preamble_mentions_harsh pre]
  note c = sublist_order.order.trans [OF 3 com]
  from sev have d: "iterates_set so \<longrightarrow> sublist ''- Comment severity levels detected: harsh'' ?P"
    by (rule impI)
  show ?thesis
    by (intro conjI language_scenario severity_scenario a b c lang com d run)
qed

theorem end_to_end_scenario_witness:
  "iterates_set remdups \<and>
   sublist ''- Comment severity levels detected: harsh''
     (create_empathetic_prompt remdups ''def f(): pass'' [''This is bad code'']) \<and>
   fst (process_json_input (test_runtime (stub_client ''OK''))
      [''code_snippet'' \<mapsto> JString ''def f(): pass'',
       ''review_comments'' \<mapsto> JArray [JString ''This is bad code'']]) = Inr ''OK''"
proof -
  have eq: "(test_runtime (stub_client ''OK''))\<lparr>completions_create := stub_client ''OK''\<rparr> =
      test_runtime (stub_client ''OK'')"
    by (simp add: test_runtime_def)
  note T = end_to_end_scenario [of remdups "test_runtime (stub_client ''OK'')", unfolded eq]
  from T have sev: "iterates_set remdups \<longrightarrow>
      sublist ''- Comment severity levels detected: harsh''
        (create_empathetic_prompt remdups ''def f(): pass'' [''This is bad code''])"
    by (elim conjE)
  from T have run: "fst (process_json_input (test_runtime (stub_client ''OK''))
      [''code_snippet'' \<mapsto> JString ''def f(): pass'',
       ''review_comments'' \<mapsto> JArray [JString ''This is bad code'']]) = Inr ''OK''"
    by (elim conjE) (simp only: fst_conv)
  from sev [THEN mp, OF iterates_set_remdups] run iterates_set_remdups
  show ?thesis by (intro conjI)
qed

subsection \<open>\<^verbatim>\<open>review_code\<close> and \<^verbatim>\<open>process_json_input\<close>\<close>

lemma review_code_except_returns: "\<exists>text. fst (review_code_except r) = Inr text"
  by (cases r) (auto simp: review_code_except_def split: sum.splits)

lemma review_code_any_typed:
  "review_code_any rt (JString code) (JArray (map JString comments)) = review_code rt code comments"
  by (simp add: review_code_any_def review_code_def prompt_for_def list_all_iff comp_def)

text \<open>
  Claim C4. For every code snippet and list of comments: if the client raises an exception
  on the request that \<^verbatim>\<open>review_code\<close> sends, \<^verbatim>\<open>review_code\<close> raises nothing and
  returns \<^verbatim>\<open>Error generating empathetic review: \<close> followed by the exception's text.
\<close>

theorem review_code_client_failure:
  "completions_create rt
     (review_request (create_empathetic_prompt (set_order rt) code_snippet review_comments)) = Inl e
   \<Longrightarrow> fst (review_code rt code_snippet review_comments) =
         Inr (''Error generating empathetic review: '' @ exn_str e)"
  by (simp add: review_code_def review_code_try_def review_code_except_def)

theorem review_code_client_failure_witness:
  "fst (review_code (test_runtime (failing_client (Exn ''APIConnectionError'' ''Connection error.'')))
          ''x = 1'' [''This is bad'']) =
     Inr ''Error generating empathetic review: Connection error.''"
proof -
  let ?rt = "test_runtime (failing_client (Exn ''APIConnectionError'' ''Connection error.''))"
  have "completions_create ?rt
      (review_request (create_empathetic_prompt (set_order ?rt) ''x = 1'' [''This is bad''])) =
      Inl (Exn ''APIConnectionError'' ''Connection error.'')"
    by (simp add: test_runtime_def failing_client_def)
  from review_code_client_failure [OF this] show ?thesis by simp
qed

text \<open>
  Claim C5. For every request object that lacks \<^verbatim>\<open>code_snippet\<close> or
  \<^verbatim>\<open>review_comments\<close>, \<^verbatim>\<open>process_json_input\<close> raises the \<^verbatim>\<open>ValueError\<close> of line
  153 (the specification's validation error), whatever the runtime, and sends no request:
  neither the prompt builder nor the client has a part in it. For every object that holds
  both keys the validation passes, and the call returns a string.
\<close>

theorem missing_key_raises_value_error:
  "(json_data ''code_snippet'' = None \<or> json_data ''review_comments'' = None \<longrightarrow>
      process_json_input rt json_data = (Inl missing_keys_error, [])) \<and>
   exn_class missing_keys_error = ''ValueError'' \<and>
   (json_data ''code_snippet'' \<noteq> None \<and> json_data ''review_comments'' \<noteq> None \<longrightarrow>
      (\<exists>text. fst (process_json_input rt json_data) = Inr text))"
  using review_code_except_returns
  by (auto simp: process_json_input_def missing_keys_error_def review_code_any_def)

theorem missing_key_raises_value_error_witness:
  "process_json_input (test_runtime (stub_client ''OK''))
      [''review_comments'' \<mapsto> JArray [JString ''This is bad code'']] =
     (Inl missing_keys_error, []) \<and>
   process_json_input (test_runtime (stub_client ''OK''))
      [''code_snippet'' \<mapsto> JString ''def f(): pass''] =
     (Inl missing_keys_error, []) \<and>
   (\<exists>text. fst (process_json_input (test_runtime (stub_client ''OK''))
      [''code_snippet'' \<mapsto> JString ''def f(): pass'',
       ''review_comments'' \<mapsto> JArray [JString ''This is bad code'']]) = Inr text)"
  using missing_key_raises_value_error [of "[''review_comments'' \<mapsto> JArray [JString ''This is bad code'']]"
      "test_runtime (stub_client ''OK'')"]
    missing_key_raises_value_error [of "[''code_snippet'' \<mapsto> JString ''def f(): pass'']"
      "test_runtime (stub_client ''OK'')"]
    missing_key_raises_value_error [of "[''code_snippet'' \<mapsto> JString ''def f(): pass'',
       ''review_comments'' \<mapsto> JArray [JString ''This is bad code'']]"
      "test_runtime (stub_client ''OK'')"]
  by simp

text \<open>
  Claim C7. Two request objects that hold both keys and agree on their two values are
  processed to the same result, whatever other keys either holds.
\<close>

theorem extra_keys_ignored:
  "a ''code_snippet'' \<noteq> None \<Longrightarrow> a ''review_comments'' \<noteq> None \<Longrightarrow>
   b ''code_snippet'' = a ''code_snippet'' \<Longrightarrow> b ''review_comments'' = a ''review_comments'' \<Longrightarrow>
   process_json_input rt a = process_json_input rt b"
  by (auto simp: process_json_input_def)

theorem extra_keys_ignored_witness:
  "process_json_input (test_runtime (stub_client ''OK''))
      [''code_snippet'' \<mapsto> JString ''def f(): pass'',
       ''review_comments'' \<mapsto> JArray [JString ''This is bad code'']] =
   process_json_input (test_runtime (stub_client ''OK''))
      [''author'' \<mapsto> JString ''someone'',
       ''code_snippet'' \<mapsto> JString ''def f(): pass'',
       ''priority'' \<mapsto> JInt 3,
       ''review_comments'' \<mapsto> JArray [JString ''This is bad code'']]"
  by (rule extra_keys_ignored) simp_all

text \<open>
  Claim C1, as stated: every failure, a missing key among them, comes back as an error
  string. For a request without \<^verbatim>\<open>code_snippet\<close> the \<^verbatim>\<open>ValueError\<close> of line 153 is
  raised to the caller of \<^verbatim>\<open>process_json_input\<close> instead: the check stands before the
  \<^verbatim>\<open>try\<close> of \<^verbatim>\<open>review_code\<close>.
\<close>

theorem missing_key_escapes:
  "fst (process_json_input (test_runtime (stub_client ''OK''))
          [''review_comments'' \<mapsto> JArray [JString ''This is bad code'']]) =
     Inl (Exn ''ValueError''
            (''JSON must contain '' @ squote @ ''code_snippet'' @ squote @ '' and '' @ squote
               @ ''review_comments'' @ squote @ '' keys''))"
  by (simp add: process_json_input_def missing_keys_error_def)

text \<open>
  Claim C1, amended. For every request object that holds both keys,
  \<^verbatim>\<open>process_json_input\<close> raises nothing and returns a string; and whenever the
  \<^verbatim>\<open>try\<close> block of \<^verbatim>\<open>review_code\<close> fails with an exception (in building the
  prompt, in the call of the client, or in taking the first choice), that string is
  \<^verbatim>\<open>Error generating empathetic review: \<close> followed by the exception's text.
\<close>

theorem failures_inside_review_code_returned:
  "json_data ''code_snippet'' = Some c \<Longrightarrow> json_data ''review_comments'' = Some r \<Longrightarrow>
   \<exists>text sent. process_json_input rt json_data = (Inr text, sent) \<and>
     (\<forall>e. fst (review_code_try rt (prompt_for rt c r)) = Inl e \<longrightarrow>
        text = ''Error generating empathetic review: '' @ exn_str e)"
  by (cases "review_code_try rt (prompt_for rt c r)")
    (auto simp: process_json_input_def review_code_any_def review_code_except_def split: sum.splits)

theorem failures_inside_review_code_returned_witness:
  "fst (process_json_input (test_runtime (failing_client (Exn ''AuthenticationError'' ''Invalid API Key'')))
     [''code_snippet'' \<mapsto> JString ''def f(): pass'',
      ''review_comments'' \<mapsto> JArray [JString ''This is bad code'']]) =
    Inr ''Error generating empathetic review: Invalid API Key'' \<and>
   fst (process_json_input (test_runtime (stub_client ''OK''))
     [''code_snippet'' \<mapsto> JInt 5, ''review_comments'' \<mapsto> JNull]) =
    Inr ''Error generating empathetic review: argument of type is not iterable''"
proof -
  let ?rt = "test_runtime (failing_client (Exn ''AuthenticationError'' ''Invalid API Key''))"
  let ?d = "[''code_snippet'' \<mapsto> JString ''def f(): pass'',
      ''review_comments'' \<mapsto> JArray [JString ''This is bad code'']]"
  have 1: "?d ''code_snippet'' = Some (JString ''def f(): pass'')"
    and 2: "?d ''review_comments'' = Some (JArray [JString ''This is bad code''])" by simp_all
  have 3: "fst (review_code_try ?rt (prompt_for ?rt (JString ''def f(): pass'')
      (JArray [JString ''This is bad code'']))) = Inl (Exn ''AuthenticationError'' ''Invalid API Key'')"
    by (simp add: review_code_try_def prompt_for_def test_runtime_def failing_client_def)
  let ?rt' = "test_runtime (stub_client ''OK'')"
  let ?d' = "[''code_snippet'' \<mapsto> JInt 5, ''review_comments'' \<mapsto> JNull]"
  have 4: "?d' ''code_snippet'' = Some (JInt 5)" and 5: "?d' ''review_comments'' = Some JNull"
    by simp_all
  have 6: "fst (review_code_try ?rt' (prompt_for ?rt' (JInt 5) JNull)) =
      Inl (Exn ''TypeError'' ''argument of type is not iterable'')"
    by (simp add: review_code_try_def prompt_for_def test_runtime_def)
  from failures_inside_review_code_returned [OF 1 2, of ?rt] 3
  obtain sent where "process_json_input ?rt ?d =
      (Inr (''Error generating empathetic review: '' @ exn_str (Exn ''AuthenticationError'' ''Invalid API Key'')), sent)"
    by blast
  then have a: "fst (process_json_input ?rt ?d) =
      Inr ''Error generating empathetic review: Invalid API Key''"
    by (simp only: fst_conv exn.sel append.simps)
  from failures_inside_review_code_returned [OF 4 5, of ?rt'] 6
  obtain sent' where "process_json_input ?rt' ?d' =
      (Inr (''Error generating empathetic review: '' @ exn_str (Exn ''TypeError'' ''argument of type is not iterable'')), sent')"
    by blast
  then have b: "fst (process_json_input ?rt' ?d') =
      Inr ''Error generating empathetic review: argument of type is not iterable''"
    by (simp only: fst_conv exn.sel append.simps)
  from a b show ?thesis by (rule conjI)
qed

subsection \<open>\<^verbatim>\<open>main\<close>\<close>

text \<open>
  Claim C9. When the input path names no file, \<^verbatim>\<open>main\<close> prints
  \<^verbatim>\<open>Error: Input file '<path>' not found\<close> to standard error and exits with code 1;
  when the file is there and \<^verbatim>\<open>json.load\<close> rejects its text with
  \<^verbatim>\<open>JSONDecodeError\<close>, it prints \<^verbatim>\<open>Error: Invalid JSON in '<path>'\<close> to standard
  error and exits with code 1. Nothing else of the world changes.
\<close>

theorem main_input_file_errors:
  "(files w (input_file a) = None \<longrightarrow>
      main rt a w =
        (1, w\<lparr>stderr := stderr w @
           [''Error: Input file '' @ squote @ input_file a @ squote @ '' not found'']\<rparr>)) \<and>
   (files w (input_file a) = Some (File contents) \<and> json_load rt contents = Inl e \<and>
    exn_class e = ''JSONDecodeError'' \<longrightarrow>
      main rt a w =
        (1, w\<lparr>stderr := stderr w @
           [''Error: Invalid JSON in '' @ squote @ input_file a @ squote]\<rparr>))"
  by (simp add: main_def main_try_def open_read_def)

theorem main_input_file_errors_witness:
  "main (test_runtime (stub_client ''OK'')) \<lparr>input_file = ''missing.json'', output_arg = None\<rparr>
     \<lparr>files = [''broken.json'' \<mapsto> File ''{not json''], unwritable = Map.empty,
      stdout = [], stderr = [], requests = []\<rparr> =
     (1, \<lparr>files = [''broken.json'' \<mapsto> File ''{not json''], unwritable = Map.empty,
      stdout = [], stderr = [''Error: Input file '' @ squote @ ''missing.json'' @ squote @ '' not found''],
      requests = []\<rparr>) \<and>
   main (test_runtime (stub_client ''OK'')) \<lparr>input_file = ''broken.json'', output_arg = None\<rparr>
     \<lparr>files = [''broken.json'' \<mapsto> File ''{not json''], unwritable = Map.empty,
      stdout = [], stderr = [], requests = []\<rparr> =
     (1, \<lparr>files = [''broken.json'' \<mapsto> File ''{not json''], unwritable = Map.empty,
      stdout = [], stderr = [''Error: Invalid JSON in '' @ squote @ ''broken.json'' @ squote],
      requests = []\<rparr>)"
proof -
  let ?w = "\<lparr>files = [''broken.json'' \<mapsto> File ''{not json''], unwritable = Map.empty,
      stdout = [], stderr = [], requests = []\<rparr>"
  let ?rt = "test_runtime (stub_client ''OK'')"
  let ?e = "Exn ''JSONDecodeError'' ''Expecting value: line 1 column 1 (char 0)''"
  have 1: "files ?w (input_file \<lparr>input_file = ''missing.json'', output_arg = None\<rparr>) = None"
    by simp
  have 2: "files ?w (input_file \<lparr>input_file = ''broken.json'', output_arg = None\<rparr>) =
      Some (File ''{not json'')"
    by simp
  have 3: "json_load ?rt ''{not json'' = Inl ?e" by (simp add: test_runtime_def)
  have 4: "exn_class ?e = ''JSONDecodeError''" by simp
  note main_input_file_errors [where w = "?w" and rt = "?rt"
        and a = "\<lparr>input_file = ''missing.json'', output_arg = None\<rparr>"]
    main_input_file_errors [where w = "?w" and rt = "?rt" and contents = "''{not json''" and e = "?e"
        and a = "\<lparr>input_file = ''broken.json'', output_arg = None\<rparr>"]
  with 1 2 3 4
  show ?thesis by simp
qed

end
